theory Spec2Isabelle
  imports Main "HOL-Library.Multiset"
begin

section \<open>JavaScript strings\<close>

text \<open>
  A JavaScript string is a sequence of UTF-16 code units. The texts of this program are
  Korean, so a string is modelled as the list of its code units (each Hangul syllable of
  the keywords below is one unit); \<open>ascii\<close> embeds an ASCII literal.
\<close>

type_synonym jsstring = "nat list"

definition ascii :: "string \<Rightarrow> jsstring" where
  "ascii s = map of_char s"

text \<open>\<open>String.prototype.includes\<close>: the search string occurs at some position.\<close>

fun starts_with :: "jsstring \<Rightarrow> jsstring \<Rightarrow> bool" where
  "starts_with s [] = True"
| "starts_with [] (k # ks) = False"
| "starts_with (c # cs) (k # ks) = (c = k \<and> starts_with cs ks)"

fun includes_js :: "jsstring \<Rightarrow> jsstring \<Rightarrow> bool" where
  "includes_js [] k = (k = [])"
| "includes_js (c # cs) k = (starts_with (c # cs) k \<or> includes_js cs k)"

text \<open>
  \<open>String.prototype.toLowerCase\<close> on the units the program's keywords can meet: the
  Latin capitals go to their small letters, every other unit (Hangul, digits, punctuation)
  stays. The case tables of other alphabets, none of which yields a unit of a keyword,
  are left out.
\<close>

definition lower_unit :: "nat \<Rightarrow> nat" where
  "lower_unit c = (if 65 \<le> c \<and> c \<le> 90 then c + 32 else c)"

definition toLowerCase :: "jsstring \<Rightarrow> jsstring" where
  "toLowerCase s = map lower_unit s"

text \<open>
  \<open>String.prototype.trim\<close> removes white space and line terminators from both ends.
\<close>

definition is_space :: "nat \<Rightarrow> bool" where
  "is_space c \<longleftrightarrow>
     c \<in> {9, 10, 11, 12, 13, 32, 160, 5760, 8232, 8233, 8239, 8287, 12288, 65279}
     \<or> (8192 \<le> c \<and> c \<le> 8202)"

definition trim :: "jsstring \<Rightarrow> jsstring" where
  "trim s = rev (dropWhile is_space (rev (dropWhile is_space s)))"

section \<open>Chart type selection (chartGenerator.js)\<close>

text \<open>The keywords of \<open>selectChartTypeByRule\<close>, as code units.\<close>

definition kw_byeonhwa :: jsstring where "kw_byeonhwa = [48320, 54868]"
definition kw_chui :: jsstring where "kw_chui = [52628, 51060]"
definition kw_heureum :: jsstring where "kw_heureum = [55120, 47492]"
definition kw_paeteon :: jsstring where "kw_paeteon = [54056, 53556]"
definition kw_bunpo :: jsstring where "kw_bunpo = [48516, 54252]"
definition kw_bindo :: jsstring where "kw_bindo = [48712, 46020]"
definition kw_eolmana :: jsstring where "kw_eolmana = [50620, 47560, 45208]"
definition kw_myeotbeon :: jsstring where "kw_myeotbeon = [47751, 48264]"
definition kw_biyul :: jsstring where "kw_biyul = [48708, 50984]"
definition kw_guseong :: jsstring where "kw_guseong = [44396, 49457]"
definition kw_peosenteu :: jsstring where "kw_peosenteu = [54140, 49468, 53944]"
definition kw_bijung :: jsstring where "kw_bijung = [48708, 51473]"
definition kw_bigyo :: jsstring where "kw_bigyo = [48708, 44368]"
definition kw_daejo :: jsstring where "kw_daejo = [45824, 51312]"
definition kw_vs :: jsstring where "kw_vs = ascii ''vs''"
definition kw_daebi :: jsstring where "kw_daebi = [45824, 48708]"

lemmas kw_defs = kw_byeonhwa_def kw_chui_def kw_heureum_def kw_paeteon_def kw_bunpo_def
  kw_bindo_def kw_eolmana_def kw_myeotbeon_def kw_biyul_def kw_guseong_def
  kw_peosenteu_def kw_bijung_def kw_bigyo_def kw_daejo_def kw_vs_def kw_daebi_def

definition selectChartTypeByRule :: "jsstring \<Rightarrow> jsstring" where
  "selectChartTypeByRule question =
     (let q = toLowerCase question in
      if includes_js q kw_byeonhwa \<or> includes_js q kw_chui \<or> includes_js q kw_heureum
           \<or> includes_js q kw_paeteon
        then ascii ''line''
      else if includes_js q kw_bunpo \<or> includes_js q kw_bindo \<or> includes_js q kw_eolmana
           \<or> includes_js q kw_myeotbeon
        then ascii ''bar''
      else if includes_js q kw_biyul \<or> includes_js q kw_guseong \<or> includes_js q kw_peosenteu
           \<or> includes_js q kw_bijung
        then ascii ''pie''
      else if includes_js q kw_bigyo \<or> includes_js q kw_daejo \<or> includes_js q kw_vs
           \<or> includes_js q kw_daebi
        then ascii ''radar''
      else ascii ''line'')"

text \<open>
  What "the question contains a keyword" means, independently of the scan that
  \<open>includes_js\<close> performs: the keyword stands between some prefix and some suffix.
\<close>

definition occurs_in :: "jsstring \<Rightarrow> jsstring \<Rightarrow> bool" where
  "occurs_in k s \<longleftrightarrow> (\<exists>p r. s = p @ k @ r)"

definition mentions :: "jsstring \<Rightarrow> jsstring list \<Rightarrow> bool" where
  "mentions q ks \<longleftrightarrow> (\<exists>k \<in> set ks. occurs_in k (toLowerCase q))"

section \<open>Calendar dates and the dayjs operations the program uses\<close>

text \<open>
  A dayjs value is read by the program only through \<open>format('YYYY-MM-DD')\<close>, so it is
  modelled by the calendar fields dayjs keeps (\<open>$y\<close>, \<open>$M + 1\<close>, \<open>$D\<close>); the time
  of day, which \<open>subtract\<close> in days, weeks, months and years does not touch, is left out.
  Years run over all integers (the proleptic Gregorian calendar): the bound JavaScript
  puts on time values, some 273,000 years either side of 1970, is not modelled.
\<close>

record cal_date =
  year :: int
  month :: int
  day :: int

definition leap_year :: "int \<Rightarrow> bool" where
  "leap_year y \<longleftrightarrow> (y mod 4 = 0 \<and> y mod 100 \<noteq> 0) \<or> y mod 400 = 0"

definition days_in_month :: "int \<Rightarrow> int \<Rightarrow> int" where
  "days_in_month y m =
     (if m = 2 then (if leap_year y then 29 else 28)
      else if m = 4 \<or> m = 6 \<or> m = 9 \<or> m = 11 then 30 else 31)"

definition valid_date :: "cal_date \<Rightarrow> bool" where
  "valid_date d \<longleftrightarrow>
     1 \<le> month d \<and> month d \<le> 12 \<and> 1 \<le> day d \<and> day d \<le> days_in_month (year d) (month d)"

definition prev_month :: "int \<Rightarrow> int \<Rightarrow> int \<times> int" where
  "prev_month y m = (if m \<le> 1 then (y - 1, 12) else (y, m - 1))"

definition next_month :: "int \<Rightarrow> int \<Rightarrow> int \<times> int" where
  "next_month y m = (if 12 \<le> m then (y + 1, 1) else (y, m + 1))"

text \<open>
  \<open>Date.prototype.setDate\<close> with a day of the month outside the month: the day is
  carried into the following months, or borrowed from the preceding ones, until it fits.
\<close>

function setDate :: "int \<Rightarrow> int \<Rightarrow> int \<Rightarrow> cal_date" where
  "setDate y m d =
     (if d < 1 then
        (case prev_month y m of (y', m') \<Rightarrow> setDate y' m' (d + days_in_month y' m'))
      else if days_in_month y m < d then
        (case next_month y m of (y', m') \<Rightarrow> setDate y' m' (d - days_in_month y m))
      else \<lparr>year = y, month = m, day = d\<rparr>)"
  by pat_completeness auto
termination
  by (relation "measure (\<lambda>(y, m, d). if d < 1 then nat (32 - d) else nat d)")
     (auto simp: days_in_month_def prev_month_def next_month_def split: if_splits)

declare setDate.simps [simp del]

text \<open>
  \<open>Date.prototype.setMonth\<close> and \<open>setFullYear\<close> as dayjs calls them: on the first
  of the month, with a month index that may lie outside the year; dayjs then puts the
  day back, cut down to the length of the month reached.
\<close>

definition setMonth :: "cal_date \<Rightarrow> int \<Rightarrow> cal_date" where
  "setMonth d m0 =
     (let t = 12 * year d + m0; y' = t div 12; m' = t mod 12 + 1
      in \<lparr>year = y', month = m', day = min (day d) (days_in_month y' m')\<rparr>)"

definition setFullYear :: "cal_date \<Rightarrow> int \<Rightarrow> cal_date" where
  "setFullYear d y' = \<lparr>year = y', month = month d,
                        day = min (day d) (days_in_month y' (month d))\<rparr>"

datatype dayjs_unit = UDay | UWeek | UMonth | UYear

fun dayjs_add :: "cal_date \<Rightarrow> int \<Rightarrow> dayjs_unit \<Rightarrow> cal_date" where
  "dayjs_add d n UMonth = setMonth d (month d - 1 + n)"
| "dayjs_add d n UYear = setFullYear d (year d + n)"
| "dayjs_add d n UDay = setDate (year d) (month d) (day d + 1 * n)"
| "dayjs_add d n UWeek = setDate (year d) (month d) (day d + 7 * n)"

definition dayjs_subtract :: "cal_date \<Rightarrow> int \<Rightarrow> dayjs_unit \<Rightarrow> cal_date" where
  "dayjs_subtract d n u = dayjs_add d (n * (- 1)) u"

text \<open>
  \<open>format('YYYY-MM-DD')\<close>: dayjs pads the decimal text of each field on the left with
  zeros, to four places for the year and two for the month and the day.
\<close>

fun digits_of :: "nat \<Rightarrow> jsstring" where
  "digits_of n = (if n < 10 then [48 + n] else digits_of (n div 10) @ [48 + n mod 10])"

declare digits_of.simps [simp del]

definition string_of_int :: "int \<Rightarrow> jsstring" where
  "string_of_int i = (if i < 0 then 45 # digits_of (nat (- i)) else digits_of (nat i))"

definition padStart :: "jsstring \<Rightarrow> nat \<Rightarrow> jsstring" where
  "padStart s n = replicate (n - length s) 48 @ s"

definition format_ymd :: "cal_date \<Rightarrow> jsstring" where
  "format_ymd d = padStart (string_of_int (year d)) 4 @ [45]
                    @ padStart (string_of_int (month d)) 2 @ [45]
                    @ padStart (string_of_int (day d)) 2"

section \<open>Intents (intentAnalyze.js)\<close>

text \<open>
  The intent is the object parsed from the model's JSON reply, or built by the fallback
  classifier. A field that is \<open>null\<close> or missing is \<open>None\<close>. In a condition
  JavaScript takes a string for true when it is not empty and a number when it is not
  zero; \<open>a || b\<close> is \<open>a\<close> when \<open>a\<close> is taken for true and \<open>b\<close> otherwise.
\<close>

record intent =
  isAnalysisRequest :: bool
  needsRecords :: bool
  needsChatHistory :: bool
  needsChart :: bool
  isSimpleGreeting :: bool
  timeRange :: "jsstring option"
  topic :: "jsstring option"
  analysisType :: "jsstring option"
  periodType :: "jsstring option"
  periodValue :: "int option"
  fromDate :: "jsstring option"
  toDate :: "jsstring option"

definition truthy_str :: "jsstring option \<Rightarrow> bool" where
  "truthy_str v = (case v of None \<Rightarrow> False | Some s \<Rightarrow> s \<noteq> [])"

definition truthy_num :: "int option \<Rightarrow> bool" where
  "truthy_num v = (case v of None \<Rightarrow> False | Some n \<Rightarrow> n \<noteq> 0)"

definition or_str :: "jsstring option \<Rightarrow> jsstring \<Rightarrow> jsstring" where
  "or_str v d = (case v of None \<Rightarrow> d | Some s \<Rightarrow> if s \<noteq> [] then s else d)"

definition or_num :: "int option \<Rightarrow> int \<Rightarrow> int" where
  "or_num v d = (case v of None \<Rightarrow> d | Some n \<Rightarrow> if n \<noteq> 0 then n else d)"

section \<open>The date-range resolver (intentAnalyze.js)\<close>

record date_range =
  fromDate :: jsstring
  toDate :: jsstring

text \<open>
  \<open>calculateDateRange\<close> reads the clock with \<open>dayjs()\<close>; the reading is the
  parameter \<open>now\<close>; \<open>ptype\<close> and \<open>pvalue\<close> are its parameters
  \<open>periodType\<close> and \<open>periodValue\<close>. \<open>None\<close> is the \<open>null\<close> of the default branch.
\<close>

definition calculateDateRange :: "cal_date \<Rightarrow> jsstring \<Rightarrow> int \<Rightarrow> date_range option" where
  "calculateDateRange now ptype pvalue =
     (if ptype = ascii ''day'' then
        Some \<lparr>fromDate = format_ymd (dayjs_subtract now pvalue UDay),
              toDate = format_ymd now\<rparr>
      else if ptype = ascii ''week'' then
        Some \<lparr>fromDate = format_ymd (dayjs_subtract now pvalue UWeek),
              toDate = format_ymd now\<rparr>
      else if ptype = ascii ''month'' then
        Some \<lparr>fromDate = format_ymd (dayjs_subtract now pvalue UMonth),
              toDate = format_ymd now\<rparr>
      else if ptype = ascii ''year'' then
        Some \<lparr>fromDate = format_ymd (dayjs_subtract now pvalue UYear),
              toDate = format_ymd now\<rparr>
      else None)"

section \<open>The query window of the data fetcher (chatService.js, getData)\<close>

text \<open>
  The clock as the program reads it: \<open>dayjs()\<close> in the zone of the server and
  \<open>dayjs().tz('Asia/Seoul')\<close>.
\<close>

record clock =
  local_now :: cal_date
  korea_now :: cal_date

datatype js_error = TypeError

text \<open>
  \<open>calculateDateRange(intent.periodType || 'month', intent.periodValue || 1)\<close>, and
  the reading of a field of its result, which throws when the result is \<open>null\<close>.
\<close>

definition period_range :: "clock \<Rightarrow> intent \<Rightarrow> date_range option" where
  "period_range c i =
     calculateDateRange (local_now c) (or_str (periodType i) (ascii ''month''))
       (or_num (periodValue i) 1)"

definition field_of_range ::
  "(date_range \<Rightarrow> jsstring) \<Rightarrow> date_range option \<Rightarrow> js_error + jsstring" where
  "field_of_range f r = (case r of None \<Rightarrow> Inl TypeError | Some x \<Rightarrow> Inr (f x))"

text \<open>The first half of \<open>getData\<close>: the window \<open>fromDate\<close>, \<open>toDate\<close> of the query.\<close>

definition getData_window :: "clock \<Rightarrow> intent \<Rightarrow> js_error + date_range" where
  "getData_window c i =
     (if timeRange i = Some (ascii ''today'') then
        (let koreaTime = korea_now c
         in Inr \<lparr>fromDate = format_ymd koreaTime, toDate = format_ymd koreaTime\<rparr>)
      else if timeRange i = Some (ascii ''yesterday'') then
        (let koreaTime = korea_now c
         in Inr \<lparr>fromDate = format_ymd (dayjs_subtract koreaTime 1 UDay),
                  toDate = format_ymd (dayjs_subtract koreaTime 1 UDay)\<rparr>)
      else if analysisType i = Some (ascii ''custom'')
              \<and> truthy_str (intent.fromDate i) \<and> truthy_str (intent.toDate i) then
        Inr \<lparr>fromDate = or_str (intent.fromDate i) [], toDate = or_str (intent.toDate i) []\<rparr>
      else
        (case (if truthy_str (intent.fromDate i) then Inr (or_str (intent.fromDate i) [])
               else field_of_range fromDate (period_range c i)) of
           Inl e \<Rightarrow> Inl e
         | Inr f \<Rightarrow>
            (case (if truthy_str (intent.toDate i) then Inr (or_str (intent.toDate i) [])
                   else field_of_range toDate (period_range c i)) of
               Inl e \<Rightarrow> Inl e
             | Inr t \<Rightarrow> Inr \<lparr>fromDate = f, toDate = t\<rparr>)))"


section \<open>Chart synthesis (chartGenerator.js)\<close>

text \<open>
  A row of the table \<open>records\<close> as \<open>getData\<close> selects it. The fatigue score is a
  number of the scale 0 to 5 or \<open>null\<close>; \<open>row_notes\<close> is the column \<open>notes\<close>.
\<close>

record record_row =
  date :: "jsstring option"
  title :: "jsstring option"
  row_notes :: "jsstring option"
  fatigue :: "int option"
  emotion :: "jsstring option"

record chart_options =
  responsive :: bool
  maintainAspectRatio :: bool
  title_display :: bool
  title_text :: jsstring

datatype color = OneColor jsstring | Palette "jsstring list"

record dataset =
  ds_label :: "jsstring option"
  ds_data :: "int list"
  borderColor :: "jsstring option"
  backgroundColor :: color
  tension :: "jsstring option"

record chart_body =
  labels :: "jsstring list"
  datasets :: "dataset list"

text \<open>
  A chart descriptor: the fields \<open>type\<close>, \<open>message\<close>, \<open>noData\<close>, \<open>data\<close> and
  \<open>options\<close> of the object the generators return; a field the object lacks is
  \<open>None\<close> (\<open>False\<close> for \<open>noData\<close>).
\<close>

record chart_descriptor =
  ctype :: jsstring
  message :: "jsstring option"
  noData :: bool
  data :: "chart_body option"
  options :: "chart_options option"

definition template_options :: "jsstring \<Rightarrow> chart_options" where
  "template_options t =
     \<lparr>responsive = True, maintainAspectRatio = False, title_display = True, title_text = t\<rparr>"

definition weekly_emotion_trend_title :: jsstring where
  "weekly_emotion_trend_title =
     [51452, 44036, 32, 44048, 51221, 32, 48320, 54868, 32, 52628, 51060]"

definition monthly_emotion_distribution_title :: jsstring where
  "monthly_emotion_distribution_title = [50900, 44036, 32, 44048, 51221, 32, 48516, 54252]"

definition daily_emotion_ratio_title :: jsstring where
  "daily_emotion_ratio_title = [51068, 51068, 32, 44048, 51221, 32, 48708, 50984]"

definition emotion_comparison_title :: jsstring where
  "emotion_comparison_title = [44048, 51221, 32, 48708, 44368, 32, 48516, 49437]"

text \<open>The two messages for "no data" and the descriptors that carry them.\<close>

definition no_data_text :: jsstring where
  "no_data_text =
     [54644, 45817, 32, 44592, 44036, 50640, 32, 52264, 53944, 47484, 32, 49373, 49457,
      54624, 32, 49688, 32, 51080, 45716, 32, 45936, 51060, 53552, 44032, 32, 50630,
      49845, 45768, 45796, 46]"

definition no_valid_data_text :: jsstring where
  "no_valid_data_text =
     [54644, 45817, 32, 44592, 44036, 50640, 32, 50976, 54952, 54620, 32, 45936, 51060,
      53552, 44032, 32, 50630, 50612, 49436, 32, 52264, 53944, 47484, 32, 49373, 49457,
      54624, 32, 49688, 32, 50630, 49845, 45768, 45796, 46]"

definition message_chart :: "jsstring \<Rightarrow> chart_descriptor" where
  "message_chart m =
     \<lparr>ctype = ascii ''message'', message = Some m, noData = True, data = None,
      options = None\<rparr>"

text \<open>
  \<open>new Date(s).getTime()\<close> is the parameter \<open>parse\<close> (\<open>None\<close> for \<open>NaN\<close>): what
  JavaScript accepts as a date beyond the ISO format is left to the implementation.
  A row without a date sorts with key 0; the rows that reach \<open>generateLineChart\<close>
  have passed the filter of \<open>generateEmotionChart\<close> and have one.
\<close>

definition date_key :: "(jsstring \<Rightarrow> int option) \<Rightarrow> record_row \<Rightarrow> int" where
  "date_key parse item =
     (case date item of None \<Rightarrow> 0
      | Some s \<Rightarrow> (case parse s of None \<Rightarrow> 0 | Some t \<Rightarrow> t))"

definition generateLineChart :: "(jsstring \<Rightarrow> int option) \<Rightarrow> record_row list \<Rightarrow> chart_descriptor" where
  "generateLineChart parse emotionData =
     (let sortedData = sort_key (date_key parse) emotionData in
      \<lparr>ctype = ascii ''line'', message = None, noData = False,
       data = Some \<lparr>labels = map (\<lambda>item. or_str (date item) []) sortedData,
                    datasets = [\<lparr>ds_label = Some [54588, 47196, 46020],
                                 ds_data = map (\<lambda>item. or_num (fatigue item) 0) sortedData,
                                 borderColor = Some (ascii ''rgb(255, 99, 132)''),
                                 backgroundColor = OneColor (ascii ''rgba(255, 99, 132, 0.2)''),
                                 tension = Some (ascii ''0.1'')\<rparr>]\<rparr>,
       options = Some (template_options weekly_emotion_trend_title)\<rparr>)"

text \<open>
  The tally \<open>emotionData.reduce(...)\<close> builds an object whose keys are the emotion
  labels; \<open>Object.keys\<close> and \<open>Object.values\<close> list it in the order in which the keys
  were added, so the object is a list of pairs in that order. (Labels are words: a
  label that is the text of an array index, which JavaScript lists first, or the name of
  a property every object inherits is outside this model.)
\<close>

definition unknown_emotion :: jsstring where
  "unknown_emotion = [51221, 48372, 50630, 51020]"

definition emotion_label :: "record_row \<Rightarrow> jsstring" where
  "emotion_label item = or_str (emotion item) unknown_emotion"

fun bump :: "(jsstring \<times> int) list \<Rightarrow> jsstring \<Rightarrow> (jsstring \<times> int) list" where
  "bump [] k = [(k, 0 + 1)]"
| "bump ((k', n) # acc) k = (if k' = k then (k', n + 1) # acc else (k', n) # bump acc k)"

definition emotionCounts :: "record_row list \<Rightarrow> (jsstring \<times> int) list" where
  "emotionCounts emotionData = foldl (\<lambda>acc item. bump acc (emotion_label item)) [] emotionData"

definition palette :: "jsstring list" where
  "palette = [ascii ''rgba(255, 99, 132, 0.8)'', ascii ''rgba(54, 162, 235, 0.8)'',
              ascii ''rgba(255, 205, 86, 0.8)'', ascii ''rgba(75, 192, 192, 0.8)'',
              ascii ''rgba(153, 102, 255, 0.8)'']"

definition generateBarChart :: "record_row list \<Rightarrow> chart_descriptor" where
  "generateBarChart emotionData =
     (let emotionCounts = emotionCounts emotionData;
          emotions = map fst emotionCounts; counts = map snd emotionCounts in
      \<lparr>ctype = ascii ''bar'', message = None, noData = False,
       data = Some \<lparr>labels = emotions,
                    datasets = [\<lparr>ds_label = Some [48712, 46020], ds_data = counts,
                                 borderColor = None, backgroundColor = Palette palette,
                                 tension = None\<rparr>]\<rparr>,
       options = Some (template_options monthly_emotion_distribution_title)\<rparr>)"

definition generatePieChart :: "record_row list \<Rightarrow> chart_descriptor" where
  "generatePieChart emotionData =
     (let emotionCounts = emotionCounts emotionData;
          emotions = map fst emotionCounts; counts = map snd emotionCounts in
      \<lparr>ctype = ascii ''pie'', message = None, noData = False,
       data = Some \<lparr>labels = emotions,
                    datasets = [\<lparr>ds_label = None, ds_data = counts,
                                 borderColor = None, backgroundColor = Palette palette,
                                 tension = None\<rparr>]\<rparr>,
       options = Some (template_options daily_emotion_ratio_title)\<rparr>)"

definition generateRadarChart :: "record_row list \<Rightarrow> chart_descriptor" where
  "generateRadarChart emotionData =
     (let emotionCounts = emotionCounts emotionData;
          emotions = map fst emotionCounts; counts = map snd emotionCounts in
      \<lparr>ctype = ascii ''radar'', message = None, noData = False,
       data = Some \<lparr>labels = emotions,
                    datasets = [\<lparr>ds_label = Some [44048, 51221, 32, 48712, 46020],
                                 ds_data = counts,
                                 borderColor = Some (ascii ''rgb(255, 99, 132)''),
                                 backgroundColor = OneColor (ascii ''rgba(255, 99, 132, 0.2)''),
                                 tension = None\<rparr>]\<rparr>,
       options = Some (template_options emotion_comparison_title)\<rparr>)"

definition generateChartData ::
  "(jsstring \<Rightarrow> int option) \<Rightarrow> record_row list \<Rightarrow> jsstring \<Rightarrow> chart_descriptor" where
  "generateChartData parse emotionData chartType =
     (if emotionData = [] then message_chart no_data_text
      else if chartType = ascii ''line'' then generateLineChart parse emotionData
      else if chartType = ascii ''bar'' then generateBarChart emotionData
      else if chartType = ascii ''pie'' then generatePieChart emotionData
      else if chartType = ascii ''radar'' then generateRadarChart emotionData
      else generateLineChart parse emotionData)"

text \<open>
  The validity test of \<open>generateEmotionChart\<close>: \<open>!item.date || !item.fatigue\<close>
  rejects, then a date that does not parse rejects.
\<close>

definition valid_item :: "(jsstring \<Rightarrow> int option) \<Rightarrow> record_row \<Rightarrow> bool" where
  "valid_item parse item =
     (if \<not> truthy_str (date item) \<or> \<not> truthy_num (fatigue item) then False
      else if parse (or_str (date item) []) = None then False
      else True)"

definition generateEmotionChart ::
  "(jsstring \<Rightarrow> int option) \<Rightarrow> record_row list \<Rightarrow> jsstring \<Rightarrow> chart_descriptor" where
  "generateEmotionChart parse emotionData question =
     (if emotionData = [] then message_chart no_data_text
      else
        (let validData = filter (valid_item parse) emotionData in
         if length validData = 0 then message_chart no_valid_data_text
         else
           (let chartType = selectChartTypeByRule question
            in generateChartData parse validData chartType)))"

text \<open>
  What the tally is meant to be, said without the object: the labels in the order of
  their first appearance, and for each the number of rows that carry it.
\<close>

fun first_occurrences :: "'a list \<Rightarrow> 'a list" where
  "first_occurrences [] = []"
| "first_occurrences (x # xs) = x # filter (\<lambda>y. y \<noteq> x) (first_occurrences xs)"





text \<open>The row of the scale's lowest score, for the example below.\<close>

definition rested_row :: record_row where
  "rested_row = \<lparr>date = Some (ascii ''2024-03-15''), title = None, row_notes = None,
                  fatigue = Some 0, emotion = Some [44592, 49256]\<rparr>"

section \<open>The fallback classifier (intentAnalyze.js)\<close>

definition simpleFallbackAnalysis :: "jsstring \<Rightarrow> intent" where
  "simpleFallbackAnalysis msg =
     (let lowerMessage = toLowerCase msg;
          hasAnalysis = (includes_js lowerMessage [48516, 49437]
                         \<or> includes_js lowerMessage [52264, 53944]
                         \<or> includes_js lowerMessage [44536, 47000, 54532]);
          hasRecords = (includes_js lowerMessage [44592, 47197]
                        \<or> includes_js lowerMessage [45936, 51060, 53552]);
          hasToday = (includes_js lowerMessage [50724, 45720]
                      \<or> includes_js lowerMessage (ascii ''today''));
          hasYesterday = (includes_js lowerMessage [50612, 51228]
                          \<or> includes_js lowerMessage (ascii ''yesterday''));
          hasWeek = (includes_js lowerMessage [51452]
                     \<or> includes_js lowerMessage (ascii ''week''));
          hasMonth = (includes_js lowerMessage [45804] \<or> includes_js lowerMessage [50900]
                      \<or> includes_js lowerMessage (ascii ''month''));
          range = (if hasToday then ascii ''today''
                   else if hasYesterday then ascii ''yesterday''
                   else if hasWeek then ascii ''last_week''
                   else if hasMonth then ascii ''last_month''
                   else ascii ''recent'')
      in \<lparr>isAnalysisRequest = hasAnalysis,
          needsRecords = (hasRecords \<or> hasAnalysis),
          needsChatHistory = (\<not> hasAnalysis \<and> \<not> hasRecords),
          needsChart = hasAnalysis,
          isSimpleGreeting = (\<not> hasRecords \<and> \<not> hasAnalysis
                              \<and> \<not> includes_js lowerMessage [44592, 48516]),
          timeRange = Some range,
          topic = (if hasAnalysis then Some [48516, 49437]
                   else if hasRecords then Some [44592, 47197] else None),
          analysisType = (if hasAnalysis then Some (ascii ''specific'') else None),
          periodType = None, periodValue = None,
          intent.fromDate = None, intent.toDate = None\<rparr>)"

section \<open>The database, the model service and the requests (chatService.js)\<close>

text \<open>
  The tables the chat service touches. \<open>created_at\<close> is a time stamp the database
  sets; the identifiers are primary keys.
\<close>

record chat_message =
  msg_id :: jsstring
  msg_user_id :: jsstring
  user_chat :: jsstring
  ai_answer :: "jsstring option"
  msg_created_at :: int

record saved_chart =
  chart_id :: jsstring
  chart_user_id :: jsstring
  chart_name :: jsstring
  chart_type :: jsstring
  chart_data :: chart_body
  chart_config :: "chart_options option"
  period_start :: jsstring
  period_end :: jsstring
  chart_created_at :: int

datatype db_call = InsertMessage | UpdateAnswer | SelectRecords | InsertChart | CountCharts
  | SelectOldCharts | DeleteCharts | SelectHistory

record recent_message =
  from_user :: bool
  text_of :: jsstring

text \<open>
  A call of the language model, by what the program puts into the prompt (the wording
  of the prompts is not modelled), and its outcome: the call fails, or it returns a
  content that may be missing.
\<close>

datatype ai_request =
    IntentRequest jsstring cal_date
  | NeedsDataRequest jsstring
  | SimpleRequest jsstring "recent_message list" cal_date
  | AnalysisRequest "record_row list" jsstring "recent_message list"

datatype ai_reply = AiFails | AiContent "jsstring option"

datatype event = Called_openai ai_request | Called_db db_call

text \<open>
  What the program does not decide: the clock, the date parser, the replies of the model
  and what \<open>JSON.parse\<close> makes of them (\<open>None\<close> when it throws), the identifiers
  drawn, and which database calls return an error.
\<close>

record env =
  env_clock :: clock
  parse_date :: "jsstring \<Rightarrow> int option"
  openai :: "ai_request \<Rightarrow> ai_reply"
  json_intent :: "jsstring \<Rightarrow> intent option"
  json_needs_data :: "jsstring \<Rightarrow> bool option"
  uuidv4 :: jsstring
  new_chart_id :: jsstring
  db_time :: int
  db_fails :: "db_call \<Rightarrow> bool"

record world =
  chat_messages :: "chat_message list"
  records_table :: "(jsstring \<times> record_row) list"
  saved_charts :: "saved_chart list"
  trace :: "event list"

definition emit :: "event \<Rightarrow> world \<Rightarrow> world" where
  "emit ev w = w\<lparr>trace := trace w @ [ev]\<rparr>"

text \<open>
  The request body of POST /chat and the responses. The fields of the chat response are
  \<open>aiResponse\<close>, \<open>analysisType\<close>, \<open>dateRange\<close>, \<open>isAnalysis\<close> and
  \<open>chartData\<close> (\<open>chatHistory\<close> is always the empty array and is left out); a
  response sent with \<open>res.json\<close> alone has status 200.
\<close>

datatype jsvalue = JUndefined | JNull | JBoolean bool | JNumber int | JString jsstring | JObject

record chat_body =
  body_message :: jsvalue
  body_user_id :: "jsstring option"
  body_recent_messages :: "recent_message list"

record chat_response =
  r_aiResponse :: "jsstring option"
  r_analysisType :: jsstring
  r_dateRange :: "jsstring option"
  r_isAnalysis :: bool
  r_chartData :: "chart_descriptor option"

record history_entry =
  h_user_chat :: jsstring
  h_ai_answer :: "jsstring option"
  h_created_at :: int

datatype response_body =
    ErrorBody jsstring
  | ChatBody chat_response
  | HistoryBody "history_entry list" nat

record http_response =
  status :: nat
  body :: response_body

definition message_required_text :: jsstring where
  "message_required_text = ascii ''Message is required''"

definition message_save_failed_text :: jsstring where
  "message_save_failed_text = [47700, 49884, 51648, 32, 51200, 51109, 32, 49892, 54056]"

definition request_failed_text :: jsstring where
  "request_failed_text =
     [50836, 52397, 32, 52376, 47532, 32, 51473, 32, 50724, 47448, 44032, 32, 48156,
      49373, 54664, 49845, 45768, 45796, 46]"

definition try_again_text :: jsstring where
  "try_again_text =
     [51396, 49569, 54616, 51648, 47564, 32, 45796, 49884, 32, 49884, 46020, 54644, 32,
      51452, 49884, 47732, 32, 44048, 49324, 54616, 44192, 49845, 45768, 45796, 46]"

definition no_analysis_text :: jsstring where
  "no_analysis_text =
     [48516, 49437, 51012, 32, 49373, 49457, 54624, 32, 49688, 32, 50630, 49845, 45768,
      45796, 46]"

definition no_records_text :: jsstring where
  "no_records_text =
     [54644, 45817, 32, 44592, 44036, 50640, 32, 44592, 47197, 51060, 32, 50630, 49845,
      45768, 45796, 46, 32, 47676, 51200, 32, 44592, 47197, 51012, 32, 52628, 44032,
      54644, 51452, 49464, 50836, 46]"

definition user_id_required_text :: jsstring where
  "user_id_required_text =
     [117, 115, 101, 114, 95, 105, 100, 44032, 32, 54596, 50836, 54633, 45768, 45796, 46]"

definition history_failed_text :: jsstring where
  "history_failed_text =
     [52292, 54021, 32, 44592, 47197, 32, 51312, 54924, 32, 51473, 32, 50724, 47448,
      44032, 32, 48156, 49373, 54664, 49845, 45768, 45796, 46]"

definition message_text :: "chat_body \<Rightarrow> jsstring" where
  "message_text b = (case body_message b of JString s \<Rightarrow> s | _ \<Rightarrow> [])"

subsection \<open>Saved charts: saveChart and cleanupOldCharts\<close>

definition charts_of :: "jsstring \<Rightarrow> world \<Rightarrow> saved_chart list" where
  "charts_of userId w = filter (\<lambda>c. chart_user_id c = userId) (saved_charts w)"

text \<open>
  \<open>cleanupOldCharts\<close>: count the user's charts; above the cap, select the identifiers
  of the oldest excess (ascending \<open>created_at\<close>, limit the excess) and delete the rows
  with these identifiers. Each of the three calls may return an error, on which the
  function logs and returns.
\<close>

definition cleanupOldCharts :: "env \<Rightarrow> world \<Rightarrow> jsstring \<Rightarrow> nat \<Rightarrow> world" where
  "cleanupOldCharts e w userId maxCharts =
     (let w1 = emit (Called_db CountCharts) w in
      if db_fails e CountCharts then w1
      else
        (let count = length (charts_of userId w1) in
         if count > maxCharts then
           (let deleteCount = count - maxCharts;
                w2 = emit (Called_db SelectOldCharts) w1 in
            if db_fails e SelectOldCharts then w2
            else
              (let oldCharts = take deleteCount (sort_key chart_created_at (charts_of userId w2));
                   idsToDelete = map chart_id oldCharts;
                   w3 = emit (Called_db DeleteCharts) w2 in
               if db_fails e DeleteCharts then w3
               else w3\<lparr>saved_charts :=
                         filter (\<lambda>c. chart_id c \<notin> set idsToDelete) (saved_charts w3)\<rparr>))
         else w1))"


definition chart_name_suffix :: jsstring where
  "chart_name_suffix = [32, 44048, 51221, 32, 52264, 53944]"

text \<open>\<open>saveChart\<close>: \<open>Inl ()\<close> is the error thrown when the insert fails.\<close>

definition saveChart ::
  "env \<Rightarrow> world \<Rightarrow> jsstring \<Rightarrow> chart_body \<Rightarrow> chart_options option \<Rightarrow> jsstring
     \<Rightarrow> jsstring \<Rightarrow> jsstring \<Rightarrow> (unit + unit) \<times> world" where
  "saveChart e w userId chartData chartConfig chartType periodStart periodEnd =
     (let chartName = periodStart @ chart_name_suffix;
          w1 = emit (Called_db InsertChart) w in
      if db_fails e InsertChart then (Inl (), w1)
      else
        (let w2 = w1\<lparr>saved_charts := saved_charts w1 @
                     [\<lparr>chart_id = new_chart_id e, chart_user_id = userId,
                       chart_name = chartName, chart_type = chartType,
                       chart_data = chartData, chart_config = chartConfig,
                       period_start = periodStart, period_end = periodEnd,
                       chart_created_at = db_time e\<rparr>]\<rparr>
         in (Inr (), cleanupOldCharts e w2 userId 20)))"

subsection \<open>The data path: getData, analyzeData, handleRequest\<close>

text \<open>
  The query of \<open>getData\<close>: the user's rows with a date in the window, both ends
  included, in ascending order of date. The database compares dates; its reading of a
  date text is taken to be \<open>parse_date\<close>, and a window it cannot read is an error.
  \<open>getData\<close> ignores the error and takes the missing result for the empty array.
\<close>

definition in_window :: "(jsstring \<Rightarrow> int option) \<Rightarrow> date_range \<Rightarrow> record_row \<Rightarrow> bool" where
  "in_window parse win item =
     (case date item of None \<Rightarrow> False
      | Some s \<Rightarrow>
         (case (parse s, parse (fromDate win), parse (toDate win)) of
            (Some d, Some f, Some t) \<Rightarrow> f \<le> d \<and> d \<le> t
          | _ \<Rightarrow> False))"

definition select_records ::
  "env \<Rightarrow> world \<Rightarrow> jsstring \<Rightarrow> date_range \<Rightarrow> record_row list option" where
  "select_records e w user_id win =
     (if db_fails e SelectRecords \<or> parse_date e (fromDate win) = None
           \<or> parse_date e (toDate win) = None then None
      else Some (sort_key (date_key (parse_date e))
                   (filter (in_window (parse_date e) win)
                      (map snd (filter (\<lambda>r. fst r = user_id) (records_table w))))))"

definition getData ::
  "env \<Rightarrow> world \<Rightarrow> intent \<Rightarrow> jsstring \<Rightarrow> (js_error + record_row list) \<times> world" where
  "getData e w i user_id =
     (case getData_window (env_clock e) i of
        Inl err \<Rightarrow> (Inl err, w)
      | Inr win \<Rightarrow>
         (let w1 = emit (Called_db SelectRecords) w;
              records = select_records e w1 user_id win
          in (Inr (case records of None \<Rightarrow> [] | Some rs \<Rightarrow> rs), w1)))"

text \<open>
  \<open>analyzeData\<close> sorts the rows in place, asks the model for the analysis and returns
  the reply as \<open>result\<close>; when the call fails it returns an object without
  \<open>result\<close>. The sorted rows are returned too, since the caller goes on with them.
\<close>

definition analyzeData ::
  "env \<Rightarrow> world \<Rightarrow> record_row list \<Rightarrow> intent \<Rightarrow> jsstring \<Rightarrow> recent_message list
     \<Rightarrow> jsstring option \<times> record_row list \<times> world" where
  "analyzeData e w rows i userMessage recentMessages =
     (let sortedRows = sort_key (date_key (parse_date e)) rows;
          rq = AnalysisRequest sortedRows userMessage recentMessages;
          w1 = emit (Called_openai rq) w
      in ((case openai e rq of
             AiFails \<Rightarrow> None
           | AiContent c \<Rightarrow> Some (or_str c no_analysis_text)), sortedRows, w1))"

definition getDateRangeDisplay :: "clock \<Rightarrow> intent \<Rightarrow> jsstring" where
  "getDateRangeDisplay c i =
     (if analysisType i = Some (ascii ''specific'') \<and> truthy_str (timeRange i) then
        (let koreaTime = korea_now c in
         if timeRange i = Some (ascii ''today'') then format_ymd koreaTime
         else if timeRange i = Some (ascii ''yesterday'')
           then format_ymd (dayjs_subtract koreaTime 1 UDay)
         else format_ymd koreaTime)
      else if truthy_str (intent.fromDate i) \<and> truthy_str (intent.toDate i) then
        or_str (intent.fromDate i) [] @ ascii '' ~ '' @ or_str (intent.toDate i) []
      else [52572, 44540, 32] @ string_of_int (or_num (periodValue i) 1)
             @ or_str (periodType i) (ascii ''month''))"

definition update_answer :: "env \<Rightarrow> world \<Rightarrow> jsstring \<Rightarrow> jsstring option \<Rightarrow> world" where
  "update_answer e w messageId answer =
     (let w1 = emit (Called_db UpdateAnswer) w in
      if db_fails e UpdateAnswer then w1
      else w1\<lparr>chat_messages :=
                map (\<lambda>m. if msg_id m = messageId then m\<lparr>ai_answer := answer\<rparr> else m)
                  (chat_messages w1)\<rparr>)"

text \<open>
  Step 4 of \<open>handleRequest\<close>, the saving of a generated chart: a descriptor with
  \<open>data\<close> is saved for the period of the intent; whatever is thrown on the way (by the
  period, by \<open>saveChart\<close>) is caught and logged.
\<close>

definition save_generated_chart ::
  "env \<Rightarrow> world \<Rightarrow> intent \<Rightarrow> jsstring \<Rightarrow> chart_descriptor \<Rightarrow> world" where
  "save_generated_chart e w i user_id chartData =
     (case data chartData of
        None \<Rightarrow> w
      | Some b \<Rightarrow>
         (case (if truthy_str (intent.fromDate i) then Inr (or_str (intent.fromDate i) [])
                else field_of_range fromDate (period_range (env_clock e) i)) of
            Inl err \<Rightarrow> w
          | Inr periodStart \<Rightarrow>
             (case (if truthy_str (intent.toDate i) then Inr (or_str (intent.toDate i) [])
                    else field_of_range toDate (period_range (env_clock e) i)) of
                Inl err \<Rightarrow> w
              | Inr periodEnd \<Rightarrow>
                 snd (saveChart e w user_id b None
                        (or_str (Some (ctype chartData)) (ascii ''line''))
                        periodStart periodEnd))))"

definition handleRequest ::
  "env \<Rightarrow> world \<Rightarrow> chat_body \<Rightarrow> intent \<Rightarrow> jsstring \<Rightarrow> jsstring \<Rightarrow> http_response \<times> world" where
  "handleRequest e w req i user_id messageId =
     (case getData e w i user_id of
        (Inl err, w1) \<Rightarrow> (\<lparr>status = 500, body = ErrorBody request_failed_text\<rparr>, w1)
      | (Inr rows, w1) \<Rightarrow>
         if length rows = 0 then
           (\<lparr>status = 200,
             body = ChatBody
               \<lparr>r_aiResponse = Some no_records_text,
                r_analysisType = or_str (analysisType i) (ascii ''period''),
                r_dateRange = Some (getDateRangeDisplay (env_clock e) i),
                r_isAnalysis = isAnalysisRequest i,
                r_chartData = Some (message_chart no_data_text)\<rparr>\<rparr>, w1)
         else
           (case analyzeData e w1 rows i (message_text req) (body_recent_messages req) of
              (result, sortedRows, w2) \<Rightarrow>
                (let chart = (if needsChart i
                              then Some (generateEmotionChart (parse_date e) sortedRows
                                           (message_text req))
                              else None);
                     w3 = (case chart of None \<Rightarrow> w2
                           | Some chartData \<Rightarrow> save_generated_chart e w2 i user_id chartData);
                     w4 = update_answer e w3 messageId result
                 in (\<lparr>status = 200,
                      body = ChatBody
                        \<lparr>r_aiResponse = result,
                         r_analysisType = or_str (analysisType i) (ascii ''period''),
                         r_dateRange = Some (getDateRangeDisplay (env_clock e) i),
                         r_isAnalysis = isAnalysisRequest i,
                         r_chartData = chart\<rparr>\<rparr>, w4))))"

subsection \<open>The conversation path and the entry point\<close>

definition handleSimpleRequest ::
  "env \<Rightarrow> world \<Rightarrow> chat_body \<Rightarrow> intent \<Rightarrow> jsstring \<Rightarrow> jsstring \<Rightarrow> http_response \<times> world" where
  "handleSimpleRequest e w req i user_id messageId =
     (let rq = SimpleRequest (message_text req) (body_recent_messages req)
                 (korea_now (env_clock e));
          w1 = emit (Called_openai rq) w
      in case openai e rq of
           AiFails \<Rightarrow> (\<lparr>status = 500, body = ErrorBody request_failed_text\<rparr>, w1)
         | AiContent c \<Rightarrow>
            (let aiResponse = or_str c try_again_text
             in (\<lparr>status = 200,
                  body = ChatBody
                    \<lparr>r_aiResponse = Some aiResponse,
                     r_analysisType = ascii ''conversation'',
                     r_dateRange = None, r_isAnalysis = False, r_chartData = None\<rparr>\<rparr>,
                 update_answer e w1 messageId (Some aiResponse))))"

definition checkIfNeedsData :: "env \<Rightarrow> world \<Rightarrow> jsstring \<Rightarrow> intent \<Rightarrow> bool \<times> world" where
  "checkIfNeedsData e w msg i =
     (let rq = NeedsDataRequest msg;
          w1 = emit (Called_openai rq) w;
          fallback = (needsRecords i \<or> isAnalysisRequest i)
      in ((case openai e rq of
             AiFails \<Rightarrow> fallback
           | AiContent None \<Rightarrow> fallback
           | AiContent (Some c) \<Rightarrow>
              (case json_needs_data e c of None \<Rightarrow> fallback | Some b \<Rightarrow> b)), w1))"

definition handleSmartRequest ::
  "env \<Rightarrow> world \<Rightarrow> chat_body \<Rightarrow> intent \<Rightarrow> jsstring \<Rightarrow> jsstring \<Rightarrow> http_response \<times> world" where
  "handleSmartRequest e w req i user_id messageId =
     (case checkIfNeedsData e w (message_text req) i of
        (needsData, w1) \<Rightarrow>
          if \<not> needsData then handleSimpleRequest e w1 req i user_id messageId
          else handleRequest e w1 req i user_id messageId)"

text \<open>
  \<open>handleChatRequest\<close> also renders the recent messages into a prompt with
  \<open>createContextPrompt\<close>, only to log it; that has no effect and is left out.
  \<open>analyzeUserIntent\<close> asks the model and parses its reply; any failure on the way is
  caught and answered by the fallback classifier, so it always returns an intent.
\<close>

definition analyzeUserIntent :: "env \<Rightarrow> world \<Rightarrow> jsstring \<Rightarrow> intent \<times> world" where
  "analyzeUserIntent e w msg =
     (let rq = IntentRequest msg (korea_now (env_clock e));
          w1 = emit (Called_openai rq) w
      in ((case openai e rq of
             AiFails \<Rightarrow> simpleFallbackAnalysis msg
           | AiContent None \<Rightarrow> simpleFallbackAnalysis msg
           | AiContent (Some c) \<Rightarrow>
              (case json_intent e c of
                 None \<Rightarrow> simpleFallbackAnalysis msg
               | Some i \<Rightarrow> i)), w1))"

definition handleChatRequest :: "env \<Rightarrow> world \<Rightarrow> chat_body \<Rightarrow> http_response \<times> world" where
  "handleChatRequest e w req =
     (let user_id = (case body_user_id req of None \<Rightarrow> ascii ''test_user'' | Some u \<Rightarrow> u);
          trimmed = (case body_message req of JString s \<Rightarrow> trim s | _ \<Rightarrow> [])
      in if trimmed = [] then
           (\<lparr>status = 400, body = ErrorBody message_required_text\<rparr>, w)
         else
           (case analyzeUserIntent e w trimmed of
              (i, w1) \<Rightarrow>
                (let messageId = uuidv4 e;
                     w2 = emit (Called_db InsertMessage) w1
                 in if db_fails e InsertMessage then
                      (\<lparr>status = 500, body = ErrorBody message_save_failed_text\<rparr>, w2)
                    else
                      handleSmartRequest e
                        (w2\<lparr>chat_messages := chat_messages w2 @
                              [\<lparr>msg_id = messageId, msg_user_id = user_id,
                                user_chat = trimmed, ai_answer = None,
                                msg_created_at = db_time e\<rparr>]\<rparr>)
                        req i user_id messageId)))"

subsection \<open>GET /chat/history\<close>

text \<open>
  The query of \<open>getChatHistory\<close>, as the pair \<open>data\<close>, \<open>error\<close> the client
  returns: the user's messages in ascending order of \<open>created_at\<close>, at most 20.
\<close>

definition select_history ::
  "env \<Rightarrow> world \<Rightarrow> jsstring \<Rightarrow> history_entry list option \<times> bool" where
  "select_history e w user_id =
     (if db_fails e SelectHistory then (None, True)
      else (Some (map (\<lambda>m. \<lparr>h_user_chat = user_chat m, h_ai_answer = ai_answer m,
                               h_created_at = msg_created_at m\<rparr>)
                    (take 20 (sort_key msg_created_at
                       (filter (\<lambda>m. msg_user_id m = user_id) (chat_messages w))))),
            False))"

definition getChatHistory :: "env \<Rightarrow> world \<Rightarrow> jsstring option \<Rightarrow> http_response \<times> world" where
  "getChatHistory e w user_id =
     (if \<not> truthy_str user_id then
        (\<lparr>status = 400, body = ErrorBody user_id_required_text\<rparr>, w)
      else
        (let w1 = emit (Called_db SelectHistory) w in
         case select_history e w1 (or_str user_id []) of
           (chatHistory, error) \<Rightarrow>
             if error then (\<lparr>status = 500, body = ErrorBody history_failed_text\<rparr>, w1)
             else (\<lparr>status = 200,
                    body = HistoryBody (case chatHistory of None \<Rightarrow> [] | Some h \<Rightarrow> h)
                             (case chatHistory of None \<Rightarrow> 0
                              | Some h \<Rightarrow> if length h \<noteq> 0 then length h else 0)\<rparr>, w1)))"

text \<open>Worlds and requests for the examples below.\<close>

definition quiet_env :: env where
  "quiet_env =
     \<lparr>env_clock = \<lparr>local_now = \<lparr>year = 2024, month = 3, day = 15\<rparr>,
                    korea_now = \<lparr>year = 2024, month = 3, day = 15\<rparr>\<rparr>,
      parse_date = (\<lambda>s. None), openai = (\<lambda>rq. AiFails), json_intent = (\<lambda>s. None),
      json_needs_data = (\<lambda>s. None), uuidv4 = ascii ''m-1'', new_chart_id = ascii ''c-new'',
      db_time = 100, db_fails = (\<lambda>c. False)\<rparr>"

definition empty_world :: world where
  "empty_world = \<lparr>chat_messages = [], records_table = [], saved_charts = [], trace = []\<rparr>"

definition hello_request :: chat_body where
  "hello_request = \<lparr>body_message = JString (ascii '' hello ''), body_user_id = Some (ascii ''u1''),
                     body_recent_messages = []\<rparr>"

definition blank_request :: chat_body where
  "blank_request = \<lparr>body_message = JString [32, 9, 10], body_user_id = None,
                     body_recent_messages = []\<rparr>"

definition failing_insert_env :: env where
  "failing_insert_env = quiet_env\<lparr>db_fails := (\<lambda>c. c = InsertMessage)\<rparr>"




definition example_message :: "nat \<Rightarrow> chat_message" where
  "example_message n =
     \<lparr>msg_id = digits_of n, msg_user_id = ascii ''u1'', user_chat = ascii ''hi'',
      ai_answer = None, msg_created_at = int n\<rparr>"

definition history_entry_of :: "chat_message \<Rightarrow> history_entry" where
  "history_entry_of m =
     \<lparr>h_user_chat = user_chat m, h_ai_answer = ai_answer m, h_created_at = msg_created_at m\<rparr>"


definition example_intent :: intent where
  "example_intent =
     \<lparr>isAnalysisRequest = True, needsRecords = True, needsChatHistory = False,
      needsChart = True, isSimpleGreeting = False, timeRange = Some (ascii ''recent''),
      topic = None, analysisType = Some (ascii ''period''), periodType = None,
      periodValue = None, intent.fromDate = Some (ascii ''2024-01-01''),
      intent.toDate = Some (ascii ''2024-01-31'')\<rparr>"

text \<open>
  The calendar by counting, against which the resolver is measured: the number of a day
  is the count of the days from 1 January of year 1 up to it, and the number of a month
  is the count of the months.
\<close>

definition days_before_year :: "int \<Rightarrow> int" where
  "days_before_year y = 365 * (y - 1) + (y - 1) div 4 - (y - 1) div 100 + (y - 1) div 400"

definition days_before_month :: "int \<Rightarrow> int \<Rightarrow> int" where
  "days_before_month y m = sum_list (map (days_in_month y) [1..m - 1])"

definition day_number :: "cal_date \<Rightarrow> int" where
  "day_number d = days_before_year (year d) + days_before_month (year d) (month d) + day d"



section \<open>Properties of the string functions\<close>

lemma starts_with_iff: "starts_with s k \<longleftrightarrow> (\<exists>r. s = k @ r)"
  by (induction s k rule: starts_with.induct) auto

lemma includes_iff: "includes_js s k \<longleftrightarrow> occurs_in k s"
proof (induction s)
  case Nil
  show ?case by (auto simp: occurs_in_def)
next
  case (Cons c cs)
  have "occurs_in k (c # cs) \<longleftrightarrow> (\<exists>r. c # cs = k @ r) \<or> occurs_in k cs"
  proof
    assume "occurs_in k (c # cs)"
    then obtain p r where eq: "c # cs = p @ k @ r"
      by (auto simp: occurs_in_def)
    show "(\<exists>r. c # cs = k @ r) \<or> occurs_in k cs"
    proof (cases p)
      case Nil
      with eq show ?thesis by auto
    next
      case (Cons a p')
      with eq have "cs = p' @ k @ r" by simp
      then show ?thesis by (auto simp: occurs_in_def)
    qed
  next
    assume "(\<exists>r. c # cs = k @ r) \<or> occurs_in k cs"
    then show "occurs_in k (c # cs)"
    proof
      assume "\<exists>r. c # cs = k @ r"
      then obtain r where "c # cs = [] @ k @ r" by auto
      then show ?thesis unfolding occurs_in_def by blast
    next
      assume "occurs_in k cs"
      then obtain p r where "cs = p @ k @ r" by (auto simp: occurs_in_def)
      then have "c # cs = (c # p) @ k @ r" by simp
      then show ?thesis unfolding occurs_in_def by blast
    qed
  qed
  with Cons show ?case by (simp add: starts_with_iff)
qed

lemma dropWhile_all_iff: "(\<forall>x \<in> set (dropWhile P s). P x) \<longleftrightarrow> (\<forall>x \<in> set s. P x)"
  by (induction s) auto

lemma trim_empty_iff: "trim s = [] \<longleftrightarrow> (\<forall>c \<in> set s. is_space c)"
  by (simp add: trim_def dropWhile_eq_Nil_conv dropWhile_all_iff)

text \<open>
  C4. The chart type is a function of the question text alone, given by the keyword
  table read in order: a change/trend/flow/pattern word in the lowercased question gives
  line; else a distribution/frequency/how-much/how-many-times word gives bar; else a
  ratio/composition/percent/share word gives pie; else a compare/contrast/vs/against
  word gives radar; else line.
\<close>

theorem selectChartTypeByRule_table:
  "selectChartTypeByRule question =
     (if mentions question [kw_byeonhwa, kw_chui, kw_heureum, kw_paeteon]
        then ascii ''line''
      else if mentions question [kw_bunpo, kw_bindo, kw_eolmana, kw_myeotbeon]
        then ascii ''bar''
      else if mentions question [kw_biyul, kw_guseong, kw_peosenteu, kw_bijung]
        then ascii ''pie''
      else if mentions question [kw_bigyo, kw_daejo, kw_vs, kw_daebi]
        then ascii ''radar''
      else ascii ''line'')"
  by (simp add: selectChartTypeByRule_def mentions_def includes_iff Let_def)

text \<open>
  The four questions of the specification ("show the change of mood", "what is the
  distribution of mood?", "how is the ratio", "compare with before"), a question in
  capitals and one without a keyword.
\<close>

lemma selectChartTypeByRule_examples:
  "selectChartTypeByRule [44048, 51221, 32, 48320, 54868, 32, 48372, 50668, 51480]
     = ascii ''line''"
  "selectChartTypeByRule [44048, 51221, 32, 48516, 54252, 45716, 63] = ascii ''bar''"
  "selectChartTypeByRule [48708, 50984, 51060, 32, 50612, 46412] = ascii ''pie''"
  "selectChartTypeByRule [51060, 51204, 44284, 32, 48708, 44368, 54644, 51480]
     = ascii ''radar''"
  "selectChartTypeByRule (ascii ''A VS B'') = ascii ''radar''"
  "selectChartTypeByRule (ascii ''hello'') = ascii ''line''"
  by (simp_all add: selectChartTypeByRule_def toLowerCase_def lower_unit_def kw_defs
      ascii_def)

section \<open>Properties of the calendar and of the resolver\<close>

lemma div_pred:
  assumes "0 < (k::int)"
  shows "y div k = (y - 1) div k + (if y mod k = 0 then 1 else 0)"
proof (cases "y mod k = 0")
  case True
  have "y = k * (y div k)"
    using True div_mult_mod_eq [of y k] by (simp add: mult.commute)
  then have "y - 1 = k * (y div k - 1) + (k - 1)"
    by (simp add: algebra_simps)
  then have "(y - 1) div k = y div k - 1"
    using assms int_div_pos_eq [of "y - 1" k "y div k - 1" "k - 1"] by simp
  with True show ?thesis by simp
next
  case False
  have "0 \<le> y mod k" "y mod k < k"
    using assms by simp_all
  with False have r: "0 < y mod k" "y mod k < k"
    by linarith+
  have "y - 1 = k * (y div k) + (y mod k - 1)"
    using div_mult_mod_eq [of y k] by (simp add: algebra_simps)
  then have "(y - 1) div k = y div k"
    using r int_div_pos_eq [of "y - 1" k "y div k" "y mod k - 1"] by simp
  with False show ?thesis by simp
qed

lemma mod_400_100: "(y::int) mod 400 = 0 \<Longrightarrow> y mod 100 = 0"
proof -
  assume "y mod 400 = 0"
  then have "400 dvd y" by (simp add: mod_eq_0_iff_dvd)
  moreover have "(100::int) dvd 400" by simp
  ultimately have "100 dvd y" by (rule dvd_trans [rotated])
  then show ?thesis by (simp add: mod_eq_0_iff_dvd)
qed

lemma mod_100_4: "(y::int) mod 100 = 0 \<Longrightarrow> y mod 4 = 0"
proof -
  assume "y mod 100 = 0"
  then have "100 dvd y" by (simp add: mod_eq_0_iff_dvd)
  moreover have "(4::int) dvd 100" by simp
  ultimately have "4 dvd y" by (rule dvd_trans [rotated])
  then show ?thesis by (simp add: mod_eq_0_iff_dvd)
qed

lemma year_length:
  "days_before_year (y + 1) = days_before_year y + (if leap_year y then 366 else 365)"
proof -
  have a: "y div 4 = (y - 1) div 4 + (if y mod 4 = 0 then 1 else 0)"
    by (rule div_pred) simp
  have b: "y div 100 = (y - 1) div 100 + (if y mod 100 = 0 then 1 else 0)"
    by (rule div_pred) simp
  have c: "y div 400 = (y - 1) div 400 + (if y mod 400 = 0 then 1 else 0)"
    by (rule div_pred) simp
  show ?thesis
    using mod_400_100 [of y] mod_100_4 [of y]
    by (simp add: days_before_year_def leap_year_def a b c)
qed

lemma days_in_month_bounds: "28 \<le> days_in_month y m \<and> days_in_month y m \<le> 31"
  by (simp add: days_in_month_def)

lemma days_before_month_first: "days_before_month y 1 = 0"
  by (simp add: days_before_month_def)

lemma days_before_month_step:
  "1 \<le> m \<Longrightarrow> days_before_month y (m + 1) = days_before_month y m + days_in_month y m"
  by (simp add: days_before_month_def upto_rec2)

lemma days_before_month_13:
  "days_before_month y 13 = (if leap_year y then 366 else 365)"
  by (simp add: days_before_month_def upto_rec1 days_in_month_def)




lemma setDate_borrow_example:
  "setDate 2024 3 (1 - 30) = \<lparr>year = 2024, month = 1, day = 31\<rparr>"
  by (simp add: setDate.simps days_in_month_def leap_year_def prev_month_def next_month_def)





text \<open>
  A valid date is determined by its day number, so "the date \<open>n\<close> days before" names
  one date.
\<close>

lemma days_before_month_mono:
  assumes "1 \<le> m" and "m \<le> m'"
  shows "days_before_month y m \<le> days_before_month y m'"
  using assms(2,1)
proof (induction m' rule: int_ge_induct)
  case base
  show ?case by simp
next
  case (step i)
  then have "days_before_month y (i + 1) = days_before_month y i + days_in_month y i"
    by (intro days_before_month_step) simp
  with step days_in_month_bounds [of y i] show ?case by simp
qed

lemma days_before_year_mono:
  assumes "y < y'"
  shows "days_before_year y + (if leap_year y then 366 else 365) \<le> days_before_year y'"
proof -
  from assms have "y + 1 \<le> y'" by simp
  then show ?thesis
  proof (induction y' rule: int_ge_induct)
    case base
    show ?case by (simp add: year_length)
  next
    case (step i)
    then show ?case by (simp add: year_length [of i])
  qed
qed

lemma day_in_year:
  assumes "valid_date d"
  shows "days_before_year (year d) < day_number d"
    and "day_number d \<le> days_before_year (year d) + (if leap_year (year d) then 366 else 365)"
proof -
  from assms have v: "1 \<le> month d" "month d \<le> 12" "1 \<le> day d"
    "day d \<le> days_in_month (year d) (month d)"
    by (simp_all add: valid_date_def)
  have "0 \<le> days_before_month (year d) (month d)"
    using days_before_month_mono [of 1 "month d" "year d"] v
    by (simp add: days_before_month_first)
  with v show "days_before_year (year d) < day_number d"
    by (simp add: day_number_def)
  have "days_before_month (year d) (month d) + day d
          \<le> days_before_month (year d) (month d + 1)"
    using v by (simp add: days_before_month_step)
  also have "\<dots> \<le> days_before_month (year d) 13"
    using v by (intro days_before_month_mono) simp_all
  finally show "day_number d
      \<le> days_before_year (year d) + (if leap_year (year d) then 366 else 365)"
    by (simp add: day_number_def days_before_month_13)
qed

lemma day_number_year:
  assumes "valid_date a" and "valid_date b" and "day_number a = day_number b"
  shows "year a = year b"
proof (rule ccontr)
  assume ne: "year a \<noteq> year b"
  have less: False if v: "valid_date p" "valid_date q" and e: "day_number p = day_number q"
    and l: "year p < year q" for p q
  proof -
    have "day_number p \<le> days_before_year (year q)"
      using day_in_year(2) [OF v(1)] days_before_year_mono [OF l] by linarith
    with day_in_year(1) [OF v(2)] e show False by simp
  qed
  from ne have "year a < year b \<or> year b < year a" by linarith
  then show False
    using less [OF assms(1,2,3)] less [OF assms(2,1) assms(3) [symmetric]] by blast
qed

lemma day_number_inj:
  assumes "valid_date a" and "valid_date b" and "day_number a = day_number b"
  shows "a = b"
proof -
  have y: "year a = year b" by (rule day_number_year [OF assms])
  have less: False
    if v: "valid_date p" "valid_date q" and e: "day_number p = day_number q"
      and yy: "year p = year q" and l: "month p < month q" for p q
  proof -
    from v have vp: "1 \<le> month p" "day p \<le> days_in_month (year p) (month p)"
      and vq: "1 \<le> day q"
      by (simp_all add: valid_date_def)
    have "days_before_month (year p) (month p) + day p
            \<le> days_before_month (year p) (month p + 1)"
      using vp by (simp add: days_before_month_step)
    also have "\<dots> \<le> days_before_month (year p) (month q)"
      using vp l by (intro days_before_month_mono) simp_all
    finally have "day_number p < day_number q"
      using vq yy by (simp add: day_number_def)
    with e show False by simp
  qed
  have m: "month a = month b"
  proof (rule ccontr)
    assume "month a \<noteq> month b"
    then have "month a < month b \<or> month b < month a" by linarith
    then show False
      using less [OF assms(1,2,3) y] less [OF assms(2,1) assms(3) [symmetric] y [symmetric]]
      by blast
  qed
  from assms(3) y m have "day a = day b" by (simp add: day_number_def)
  with y m show ?thesis by simp
qed



lemma calculateDateRange_examples:
  "calculateDateRange \<lparr>year = 2024, month = 3, day = 31\<rparr> (ascii ''day'') 31
     = Some \<lparr>fromDate = ascii ''2024-02-29'', toDate = ascii ''2024-03-31''\<rparr>"
  "calculateDateRange \<lparr>year = 2024, month = 3, day = 31\<rparr> (ascii ''week'') 2
     = Some \<lparr>fromDate = ascii ''2024-03-17'', toDate = ascii ''2024-03-31''\<rparr>"
  "calculateDateRange \<lparr>year = 2024, month = 3, day = 31\<rparr> (ascii ''month'') 1
     = Some \<lparr>fromDate = ascii ''2024-02-29'', toDate = ascii ''2024-03-31''\<rparr>"
  "calculateDateRange \<lparr>year = 2024, month = 2, day = 29\<rparr> (ascii ''year'') 1
     = Some \<lparr>fromDate = ascii ''2023-02-28'', toDate = ascii ''2024-02-29''\<rparr>"
  by (simp_all add: calculateDateRange_def dayjs_subtract_def setDate.simps setMonth_def
      setFullYear_def days_in_month_def leap_year_def prev_month_def next_month_def
      format_ymd_def padStart_def string_of_int_def digits_of.simps ascii_def Let_def)


section \<open>Properties of the query window\<close>




section \<open>Properties of the chart generators\<close>








lemma distinct_first_occurrences: "distinct (first_occurrences xs)"
  by (induction xs) auto






lemma emotionCounts_example:
  "emotionCounts [rested_row, rested_row\<lparr>emotion := None\<rparr>, rested_row]
     = [([44592, 49256], 2), (unknown_emotion, 1)]"
  by (simp add: emotionCounts_def emotion_label_def or_str_def rested_row_def
      unknown_emotion_def)

text \<open>
  C5. The filter of \<open>generateEmotionChart\<close> is meant to drop the rows that lack a
  date or a fatigue score or whose date does not parse. It tests the score with
  \<open>!item.fatigue\<close>, which also holds of the score 0, the lowest of the scale: a
  complete row with that score is dropped, and alone it yields the "no data" descriptor.
\<close>

theorem generateEmotionChart_drops_zero_fatigue:
  "generateEmotionChart parse [rested_row] question = message_chart no_valid_data_text"
  by (simp add: generateEmotionChart_def valid_item_def rested_row_def truthy_num_def)

lemma valid_item_iff:
  "valid_item parse item \<longleftrightarrow>
     (\<exists>s n. date item = Some s \<and> s \<noteq> [] \<and> parse s \<noteq> None
            \<and> fatigue item = Some n \<and> n \<noteq> 0)"
  by (auto simp: valid_item_def truthy_str_def truthy_num_def or_str_def
      split: option.splits)

section \<open>Properties of the request handlers\<close>

text \<open>
  C8. A POST /chat request whose message is absent, is not a string, is empty or
  consists of white space only is answered with status 400 and an error body, and
  nothing else happens: no model call, no database call, the state is as before.
\<close>

theorem handleChatRequest_rejects_blank:
  assumes "\<forall>s. body_message req = JString s \<longrightarrow> (\<forall>c \<in> set s. is_space c)"
  shows "handleChatRequest e w req
           = (\<lparr>status = 400, body = ErrorBody message_required_text\<rparr>, w)"
proof (cases "body_message req")
  case (JString s)
  with assms have "trim s = []" by (simp add: trim_empty_iff)
  with JString show ?thesis by (simp add: handleChatRequest_def)
qed (simp_all add: handleChatRequest_def)

theorem handleChatRequest_rejects_blank_witness:
  "body_message blank_request = JString [32, 9, 10]
   \<and> list_all is_space [32, 9, 10]
   \<and> handleChatRequest quiet_env empty_world blank_request
       = (\<lparr>status = 400, body = ErrorBody message_required_text\<rparr>, empty_world)
   \<and> handleChatRequest quiet_env empty_world (blank_request\<lparr>body_message := JUndefined\<rparr>)
       = (\<lparr>status = 400, body = ErrorBody message_required_text\<rparr>, empty_world)"
proof -
  have a: "\<forall>s. body_message blank_request = JString s \<longrightarrow> (\<forall>c \<in> set s. is_space c)"
    by (simp add: blank_request_def is_space_def)
  have b: "\<forall>s. body_message (blank_request\<lparr>body_message := JUndefined\<rparr>) = JString s
             \<longrightarrow> (\<forall>c \<in> set s. is_space c)"
    by simp
  have c: "body_message blank_request = JString [32, 9, 10]"
    by (simp add: blank_request_def)
  have d: "list_all is_space [32, 9, 10]"
    by (simp add: is_space_def)
  from c d handleChatRequest_rejects_blank [OF a, of quiet_env empty_world]
    handleChatRequest_rejects_blank [OF b, of quiet_env empty_world]
  show ?thesis by simp
qed

text \<open>
  When the insert of the inbound message fails, the request ends with status 500; but
  the model has been called once by then, for the intent, since \<open>handleChatRequest\<close>
  classifies the message (step 1) before it stores it (step 2).
\<close>

theorem handleChatRequest_insert_failure_counterexample:
  "db_fails failing_insert_env InsertMessage
   \<and> status (fst (handleChatRequest failing_insert_env empty_world hello_request)) = 500
   \<and> Called_openai (IntentRequest (ascii ''hello'') \<lparr>year = 2024, month = 3, day = 15\<rparr>)
       \<in> set (trace (snd (handleChatRequest failing_insert_env empty_world hello_request)))"
  by (simp add: handleChatRequest_def analyzeUserIntent_def failing_insert_env_def
      quiet_env_def empty_world_def hello_request_def emit_def trim_def is_space_def
      ascii_def Let_def)

text \<open>
  C7 (as amended). If the insert of the inbound chat message returns an error,
  \<open>handleChatRequest\<close> responds with status 500 and stops there: the only calls made
  are the intent classification call to the model and the failed insert; neither the
  needs-data call nor a reply-composing call nor any further database call is made.
\<close>

theorem handleChatRequest_insert_failure:
  assumes "body_message req = JString s" and "trim s \<noteq> []"
    and "db_fails e InsertMessage"
  shows "handleChatRequest e w req
           = (\<lparr>status = 500, body = ErrorBody message_save_failed_text\<rparr>,
              w\<lparr>trace := trace w @
                   [Called_openai (IntentRequest (trim s) (korea_now (env_clock e))),
                    Called_db InsertMessage]\<rparr>)"
  using assms
  by (simp add: handleChatRequest_def analyzeUserIntent_def emit_def Let_def)

theorem handleChatRequest_insert_failure_witness:
  "body_message hello_request = JString (ascii '' hello '')
   \<and> trim (ascii '' hello '') \<noteq> []
   \<and> db_fails failing_insert_env InsertMessage
   \<and> handleChatRequest failing_insert_env empty_world hello_request
       = (\<lparr>status = 500, body = ErrorBody message_save_failed_text\<rparr>,
          empty_world\<lparr>trace := trace empty_world @
             [Called_openai (IntentRequest (trim (ascii '' hello ''))
                               (korea_now (env_clock failing_insert_env))),
              Called_db InsertMessage]\<rparr>)"
proof -
  have a: "body_message hello_request = JString (ascii '' hello '')"
    by (simp add: hello_request_def)
  have b: "trim (ascii '' hello '') \<noteq> []"
    by (simp add: trim_def is_space_def ascii_def)
  have c: "db_fails failing_insert_env InsertMessage"
    by (simp add: failing_insert_env_def)
  from a b c handleChatRequest_insert_failure [OF a b c, of empty_world]
  show ?thesis by simp
qed

text \<open>
  C3. On the data path, when the fetched row sequence is empty, \<open>handleRequest\<close>
  answers with the fixed "no records" reply and a chart descriptor of type message with
  \<open>noData\<close> true; the only call made is the query of \<open>getData\<close>, so the model is
  not called (\<open>analyzeData\<close> is not reached).
\<close>

theorem handleRequest_no_rows:
  assumes "getData e w i user_id = (Inr [], w1)"
  shows "handleRequest e w req i user_id messageId
           = (\<lparr>status = 200,
               body = ChatBody
                 \<lparr>r_aiResponse = Some no_records_text,
                  r_analysisType = or_str (analysisType i) (ascii ''period''),
                  r_dateRange = Some (getDateRangeDisplay (env_clock e) i),
                  r_isAnalysis = isAnalysisRequest i,
                  r_chartData = Some \<lparr>ctype = ascii ''message'', message = Some no_data_text,
                                       noData = True, data = None, options = None\<rparr>\<rparr>\<rparr>,
              w1)
       \<and> w1 = w\<lparr>trace := trace w @ [Called_db SelectRecords]\<rparr>"
  using assms
  by (auto simp: handleRequest_def getData_def message_chart_def emit_def Let_def
      split: sum.splits)

theorem handleRequest_no_rows_witness:
  "getData quiet_env empty_world example_intent (ascii ''u1'')
     = (Inr [], empty_world\<lparr>trace := [Called_db SelectRecords]\<rparr>)
   \<and> fst (handleRequest quiet_env empty_world hello_request example_intent (ascii ''u1'')
            (ascii ''m-1''))
     = \<lparr>status = 200,
        body = ChatBody
          \<lparr>r_aiResponse = Some no_records_text,
           r_analysisType = ascii ''period'',
           r_dateRange = Some (ascii ''2024-01-01 ~ 2024-01-31''),
           r_isAnalysis = True,
           r_chartData = Some \<lparr>ctype = ascii ''message'', message = Some no_data_text,
                                noData = True, data = None, options = None\<rparr>\<rparr>\<rparr>
   \<and> trace (snd (handleRequest quiet_env empty_world hello_request example_intent
                    (ascii ''u1'') (ascii ''m-1'')))
     = [Called_db SelectRecords]"
proof -
  have g: "getData quiet_env empty_world example_intent (ascii ''u1'')
             = (Inr [], empty_world\<lparr>trace := [Called_db SelectRecords]\<rparr>)"
    by (simp add: getData_def getData_window_def select_records_def quiet_env_def
        empty_world_def example_intent_def emit_def truthy_str_def or_str_def ascii_def
        Let_def)
  have d: "getDateRangeDisplay (env_clock quiet_env) example_intent
             = ascii ''2024-01-01 ~ 2024-01-31''"
    by (simp add: getDateRangeDisplay_def example_intent_def truthy_str_def or_str_def
        ascii_def)
  have t: "or_str (analysisType example_intent) (ascii ''period'') = ascii ''period''"
    by (simp add: example_intent_def or_str_def ascii_def)
  from handleRequest_no_rows [OF g, of hello_request "ascii ''m-1''"] g d t
  show ?thesis by (simp add: example_intent_def empty_world_def)
qed

section \<open>Properties of the chat history\<close>

text \<open>
  C10. For every user, \<open>getChatHistory\<close> (when the query succeeds) answers with status
  200 and at most 20 messages of that user, in ascending order of \<open>created_at\<close>, and
  the \<open>count\<close> of the response is the length of the \<open>chatHistory\<close> array; a user
  without messages gets the empty array and the count 0, not an error.
\<close>

theorem getChatHistory_at_most_20:
  assumes "user_id = Some u" and "u \<noteq> []" and "\<not> db_fails e SelectHistory"
  shows "\<exists>h. getChatHistory e w user_id
               = (\<lparr>status = 200, body = HistoryBody h (length h)\<rparr>,
                  emit (Called_db SelectHistory) w)
            \<and> length h \<le> 20
            \<and> length h = min 20 (length (filter (\<lambda>m. msg_user_id m = u) (chat_messages w)))
            \<and> sorted (map h_created_at h)
            \<and> set h \<subseteq> history_entry_of ` {m \<in> set (chat_messages w). msg_user_id m = u}"
proof -
  let ?ms = "take 20 (sort_key msg_created_at
                (filter (\<lambda>m. msg_user_id m = u) (chat_messages w)))"
  let ?h = "map history_entry_of ?ms"
  have eq: "getChatHistory e w user_id
              = (\<lparr>status = 200, body = HistoryBody ?h (length ?h)\<rparr>,
                 emit (Called_db SelectHistory) w)"
    using assms
    by (simp add: getChatHistory_def select_history_def truthy_str_def or_str_def emit_def
        history_entry_of_def Let_def)
  have "map h_created_at ?h = take 20 (map msg_created_at
          (sort_key msg_created_at (filter (\<lambda>m. msg_user_id m = u) (chat_messages w))))"
    by (simp add: history_entry_of_def comp_def take_map)
  then have s: "sorted (map h_created_at ?h)"
    by (simp add: sorted_wrt_take)
  have sub: "set ?h \<subseteq> history_entry_of ` {m \<in> set (chat_messages w). msg_user_id m = u}"
    by (auto dest: in_set_takeD)
  have len: "length ?h = min 20 (length (filter (\<lambda>m. msg_user_id m = u) (chat_messages w)))"
    by (simp add: min.commute)
  from eq s sub len show ?thesis
    by (intro exI [of _ ?h]) simp
qed

theorem getChatHistory_at_most_20_witness:
  "ascii ''u1'' \<noteq> [] \<and> \<not> db_fails quiet_env SelectHistory
   \<and> (\<exists>h. getChatHistory quiet_env
              (empty_world\<lparr>chat_messages := [example_message 2, example_message 1]\<rparr>)
              (Some (ascii ''u1''))
            = (\<lparr>status = 200, body = HistoryBody h (length h)\<rparr>,
               emit (Called_db SelectHistory)
                 (empty_world\<lparr>chat_messages := [example_message 2, example_message 1]\<rparr>))
          \<and> length h \<le> 20 \<and> sorted (map h_created_at h))"
proof -
  have a: "ascii ''u1'' \<noteq> []" by (simp add: ascii_def)
  have b: "\<not> db_fails quiet_env SelectHistory" by (simp add: quiet_env_def)
  from getChatHistory_at_most_20 [OF refl a b,
      of "empty_world\<lparr>chat_messages := [example_message 2, example_message 1]\<rparr>"] a b
  show ?thesis by blast
qed

lemma getChatHistory_examples:
  "getChatHistory quiet_env
       (empty_world\<lparr>chat_messages := [example_message 2, example_message 1]\<rparr>)
       (Some (ascii ''u1''))
     = (\<lparr>status = 200,
         body = HistoryBody [history_entry_of (example_message 1),
                             history_entry_of (example_message 2)] 2\<rparr>,
        emit (Called_db SelectHistory)
          (empty_world\<lparr>chat_messages := [example_message 2, example_message 1]\<rparr>))"
  "getChatHistory quiet_env empty_world (Some (ascii ''u1''))
     = (\<lparr>status = 200, body = HistoryBody [] 0\<rparr>, emit (Called_db SelectHistory) empty_world)"
  "getChatHistory quiet_env empty_world None
     = (\<lparr>status = 400, body = ErrorBody user_id_required_text\<rparr>, empty_world)"
  by (simp_all add: getChatHistory_def select_history_def truthy_str_def or_str_def emit_def
      history_entry_of_def example_message_def quiet_env_def empty_world_def ascii_def
      Let_def)

section \<open>Properties of the chart cleanup\<close>












end
